theory Spec2Isabelle
  imports Complex_Main "HOL-Library.Word"
begin

section \<open>plugin-voice-response: the recording, review and transcription lifecycle\<close>

text \<open>
  A shallow embedding of \<^verbatim>\<open>src/index.ts\<close>. The plugin is a set of callbacks that the
  browser runs one at a time: recorder events, button clicks, timers, file readers, the
  resize observer. Every callback is a function on an explicit state; the state holds
  the plugin's private fields and the part of the browser the callbacks read or write
  (the recorder, the display element, pending timers and readers, the object-URL
  registry). A run of a trial is a fold of the callbacks over a list of events.
\<close>

subsection \<open>Values\<close>

type_synonym byte = "8 word"

text \<open>A \<^verbatim>\<open>Blob\<close>: its bytes and its \<^verbatim>\<open>type\<close> attribute; \<^verbatim>\<open>size\<close> is the number of bytes.\<close>

record blob =
  bytes :: "byte list"
  content_type :: string

definition size_blob :: "blob \<Rightarrow> nat" where
  "size_blob b = length (bytes b)"

text \<open>
  The values of a numeric field of the plugin: \<^verbatim>\<open>null\<close>, \<^verbatim>\<open>NaN\<close> or an integer
  (the result of \<^verbatim>\<open>Math.round\<close>).
\<close>

datatype number = Null | NaN | Num int

text \<open>
  Numbers are IEEE 754 double-precision values. \<open>round_double\<close> gives the double
  nearest to a real, a tie going to the even mantissa: the binary exponent of the value
  is found by halving or doubling, the quantum is 52 binary places below it (and never
  below that of the subnormal numbers), and the value is rounded to a multiple of the
  quantum. Values beyond the largest finite double are not modelled; a time stamp in
  milliseconds is far below it.
\<close>

definition pow2 :: "int \<Rightarrow> real" where
  "pow2 k = (if 0 \<le> k then 2 ^ nat k else 1 / 2 ^ nat (- k))"

fun scale2 :: "nat \<Rightarrow> real \<Rightarrow> int \<Rightarrow> int" where
  "scale2 n x e =
     (if n = 0 then e
      else if 2 \<le> x then scale2 (n - 1) (x / 2) (e + 1)
      else if x < 1 then scale2 (n - 1) (x * 2) (e - 1)
      else e)"

declare scale2.simps [simp del]

definition round_half_even :: "real \<Rightarrow> int" where
  "round_half_even z =
     (let f = \<lfloor>z\<rfloor>; d = z - of_int f
      in if d < 1 / 2 then f else if 1 / 2 < d then f + 1 else if even f then f else f + 1)"

definition nearest_double :: "real \<Rightarrow> real" where
  "nearest_double x =
     (let q = pow2 (max (scale2 2200 x 0) (- 1022) - 52)
      in of_int (round_half_even (x / q)) * q)"

definition round_double :: "real \<Rightarrow> real" where
  "round_double x =
     (if x = 0 then 0 else if x < 0 then - nearest_double (- x) else nearest_double x)"

definition is_double :: "real \<Rightarrow> bool" where
  "is_double x \<longleftrightarrow> round_double x = x"

text \<open>
  Time stamps (\<^verbatim>\<open>performance.now()\<close>, \<^verbatim>\<open>e.timeStamp\<close>) are milliseconds with a
  fraction; a stamp written as a real stands for the double nearest to it. \<open>None\<close> is
  \<^verbatim>\<open>undefined\<close>, and arithmetic on \<^verbatim>\<open>undefined\<close> gives \<^verbatim>\<open>NaN\<close>. The difference
  of two stamps is the double nearest to the exact difference. \<^verbatim>\<open>Math.round\<close> rounds
  to the nearest integer, a half towards plus infinity (and gives minus zero, which is
  zero and not negative, for a value in the range from -0.5 to 0).
\<close>

definition minus_time :: "real option \<Rightarrow> real option \<Rightarrow> real option" where
  "minus_time a b =
     (case a of None \<Rightarrow> None
      | Some x \<Rightarrow>
          (case b of None \<Rightarrow> None
           | Some y \<Rightarrow> Some (round_double (round_double x - round_double y))))"

definition Math_round :: "real option \<Rightarrow> number" where
  "Math_round d = (case d of None \<Rightarrow> NaN | Some x \<Rightarrow> Num \<lfloor>x + 1 / 2\<rfloor>)"

datatype error = TypeError | InvalidStateError

subsection \<open>Strings of the platform\<close>

text \<open>Decimal digits of a number, as a template literal prints \<^verbatim>\<open>Date.now()\<close>.\<close>

fun string_of_nat :: "nat \<Rightarrow> string" where
  "string_of_nat n =
     (if n < 10 then [''0123456789'' ! n]
      else string_of_nat (n div 10) @ [''0123456789'' ! (n mod 10)])"

declare string_of_nat.simps [simp del]

text \<open>Whether a string occurs in another.\<close>

fun starts_with :: "string \<Rightarrow> string \<Rightarrow> bool" where
  "starts_with [] ys = True"
| "starts_with (x # xs) [] = False"
| "starts_with (x # xs) (y # ys) = (x = y \<and> starts_with xs ys)"

fun contains :: "string \<Rightarrow> string \<Rightarrow> bool" where
  "contains p [] = (p = [])"
| "contains p (y # ys) = (starts_with p (y # ys) \<or> contains p ys)"

text \<open>\<^verbatim>\<open>s.split(",")\<close> and the read of one index of the resulting array.\<close>

fun split_on :: "char \<Rightarrow> string \<Rightarrow> string list" where
  "split_on c [] = [[]]"
| "split_on c (x # xs) =
     (if x = c then [] # split_on c xs
      else (case split_on c xs of [] \<Rightarrow> [[x]] | p # ps \<Rightarrow> (x # p) # ps))"

definition at_index :: "'a list \<Rightarrow> nat \<Rightarrow> 'a option" where
  "at_index xs i = (if i < length xs then Some (xs ! i) else None)"

text \<open>
  Base64 (RFC 4648) as \<^verbatim>\<open>FileReader.readAsDataURL\<close> produces it, with its decoder.
  Neither is code of the repository: they are the platform's side of the round trip
  that the plugin's \<^verbatim>\<open>split(",")[1]\<close> takes part in.
\<close>

definition b64_alphabet :: string where
  "b64_alphabet = ''ABCDEFGHIJKLMNOPQRSTUVWXYZabcdefghijklmnopqrstuvwxyz0123456789+/''"

definition b64_char :: "nat \<Rightarrow> char" where
  "b64_char i = b64_alphabet ! i"



definition sextets :: "nat \<Rightarrow> string" where
  "sextets n =
     [b64_char (n div 262144), b64_char (n div 4096 mod 64),
      b64_char (n div 64 mod 64), b64_char (n mod 64)]"

fun base64_encode :: "byte list \<Rightarrow> string" where
  "base64_encode [] = []"
| "base64_encode [a] = take 2 (sextets (unat a * 65536)) @ ''==''"
| "base64_encode [a, b] = take 3 (sextets (unat a * 65536 + unat b * 256)) @ ''=''"
| "base64_encode (a # b # c # rest) =
     sextets (unat a * 65536 + unat b * 256 + unat c) @ base64_encode rest"




text \<open>
  The data URL that \<^verbatim>\<open>readAsDataURL\<close> hands to the \<^verbatim>\<open>load\<close> listener; a blob with
  no content type is given the type of arbitrary bytes.
\<close>

definition media_type :: "blob \<Rightarrow> string" where
  "media_type b = (if content_type b = [] then ''application/octet-stream'' else content_type b)"

definition readAsDataURL :: "blob \<Rightarrow> string" where
  "readAsDataURL b = ''data:'' @ media_type b @ '';base64,'' @ base64_encode (bytes b)"

subsection \<open>Trial parameters and the state\<close>

text \<open>The parameters of \<^verbatim>\<open>info.parameters\<close>; \<open>None\<close> is \<^verbatim>\<open>null\<close>.\<close>

record params =
  stimulus :: string
  stimulus_duration :: "int option"
  recording_duration :: "int option"
  show_done_button :: bool
  done_button_label :: string
  record_again_button_label :: string
  accept_button_label :: string
  allow_playback :: bool
  save_audio_url :: bool
  local_download :: bool
  download_file_name :: string

text \<open>
  Two things the plugin relies on are not code of the repository and are parameters.
  What the host does inside \<^verbatim>\<open>jsPsych.finishTrial\<close>: whether it empties the display
  element, and whether it cancels the timeouts of \<^verbatim>\<open>pluginAPI.setTimeout\<close>, when the
  trial is finished. And the browser's HTML parser behind \<^verbatim>\<open>querySelector("#id")\<close>:
  whether the markup assigned to \<^verbatim>\<open>innerHTML\<close>, once parsed, has an element with a
  given id.
\<close>

record host =
  clears_display :: bool
  clears_timeouts :: bool
  has_element_id :: "string \<Rightarrow> string \<Rightarrow> bool"

text \<open>\<^verbatim>\<open>MediaRecorder.state\<close>.\<close>

datatype recording_state = Inactive | Recording | Paused

text \<open>
  The promise whose \<^verbatim>\<open>resolve\<close> function is kept in \<^verbatim>\<open>load_resolver\<close>. Every promise of
  \<^verbatim>\<open>stopRecording\<close> gets the same \<^verbatim>\<open>then\<close> callback (lines 163-169 and 233-239 have
  the same body), so a promise is only pending or resolved; resolving it a second time
  does nothing.
\<close>

datatype promise = Pending | Resolved

datatype timer = HideStimulus | RecordingDeadline

text \<open>The payload of \<^verbatim>\<open>finishTrial\<close>; \<open>None\<close> is an absent or \<^verbatim>\<open>undefined\<close> field.\<close>

record trial_data =
  td_rt :: number
  td_stimulus :: string
  td_response :: "string option"
  td_estimated_stimulus_onset :: number
  td_audio_url :: "nat option"

text \<open>
  The private fields of \<^verbatim>\<open>VoiceResponsePlugin\<close> under their own names, then the browser:
  the recorder (its state, the events it has queued, which of the plugin's listeners are
  registered), the display element (the markup last assigned to its \<^verbatim>\<open>innerHTML\<close>,
  which of the three click listeners an element in it carries, and whether the stimulus
  element was hidden), resize observers that have not fired, pending
  timers, pending readers (each with the blob it reads), the object-URL registry, the
  downloads triggered, the \<^verbatim>\<open>then\<close> callbacks queued as microtasks, and what left the
  plugin: the payloads given to \<^verbatim>\<open>finishTrial\<close>, the calls of \<^verbatim>\<open>transcribe\<close>, the
  exceptions no callback caught.
\<close>

record state =
  stimulus_start_time :: "real option"
  recorder_start_time :: "real option"
  audio_url :: "nat option"
  response :: "string option"
  load_resolver :: "promise option"
  rt :: number
  recorded_data_chunks :: "blob list"
  arrayBuffer :: "byte list option"
  data :: "blob option"
  rec_state :: recording_state
  start_queued :: bool
  stop_queued :: bool
  on_dataavailable :: bool
  on_stop :: bool
  on_start :: bool
  innerHTML :: string
  finish_listener :: bool
  record_again_listener :: bool
  accept_listener :: bool
  stimulus_hidden :: bool
  observers :: nat
  timers :: "timer list"
  readers :: "blob list"
  buffer_readers :: "blob list"
  object_urls :: "(nat \<times> blob) list"
  next_url :: nat
  downloads :: "(string \<times> nat) list"
  microtasks :: nat
  finished :: "trial_data list"
  transcribe_calls :: "(nat option \<times> byte list option \<times> blob option) list"
  uncaught :: "error list"

text \<open>
  A fresh plugin instance (lines 106-118) in a browser with an idle recorder and an
  empty display element.
\<close>

definition init :: state where
  "init = \<lparr> stimulus_start_time = None, recorder_start_time = None, audio_url = None,
     response = None, load_resolver = None, rt = Null, recorded_data_chunks = [],
     arrayBuffer = None, data = None, rec_state = Inactive, start_queued = False,
     stop_queued = False, on_dataavailable = False, on_stop = False, on_start = False,
     innerHTML = [], finish_listener = False, record_again_listener = False,
     accept_listener = False, stimulus_hidden = False, observers = 0, timers = [], readers = [],
     buffer_readers = [], object_urls = [], next_url = 0, downloads = [],
     microtasks = 0, finished = [], transcribe_calls = [], uncaught = [] \<rparr>"

text \<open>A callback either returns, or throws after the writes it made so far.\<close>

type_synonym outcome = "(error \<times> state) + state"

subsection \<open>The browser's side\<close>

text \<open>
  \<^verbatim>\<open>MediaRecorder.start()\<close> throws on a recorder that is not inactive; otherwise the
  recorder is recording and a \<^verbatim>\<open>start\<close> event is queued. \<^verbatim>\<open>MediaRecorder.stop()\<close> does
  nothing on an inactive recorder; otherwise the recorder is inactive at once and a
  \<^verbatim>\<open>stop\<close> event is queued.
\<close>

definition recorder_start :: "state \<Rightarrow> outcome" where
  "recorder_start s =
     (if rec_state s \<noteq> Inactive then Inl (InvalidStateError, s)
      else Inr (s\<lparr>rec_state := Recording, start_queued := True\<rparr>))"

definition recorder_stop :: "state \<Rightarrow> state" where
  "recorder_stop s =
     (if rec_state s = Inactive then s
      else s\<lparr>rec_state := Inactive, stop_queued := True\<rparr>)"

definition createObjectURL :: "blob \<Rightarrow> state \<Rightarrow> nat \<times> state" where
  "createObjectURL b s =
     (next_url s, s\<lparr>object_urls := (next_url s, b) # object_urls s, next_url := Suc (next_url s)\<rparr>)"

definition revokeObjectURL :: "nat option \<Rightarrow> state \<Rightarrow> state" where
  "revokeObjectURL u s =
     (case u of None \<Rightarrow> s
      | Some i \<Rightarrow> s\<lparr>object_urls := filter (\<lambda>p. fst p \<noteq> i) (object_urls s)\<rparr>)"

text \<open>
  Calling \<^verbatim>\<open>this.load_resolver()\<close>: a \<^verbatim>\<open>TypeError\<close> while the field is undefined, nothing
  on a promise already resolved, and otherwise the promise is resolved and its
  \<^verbatim>\<open>then\<close> callback is queued as a microtask.
\<close>

definition call_load_resolver :: "state \<Rightarrow> outcome" where
  "call_load_resolver s =
     (case load_resolver s of
        None \<Rightarrow> Inl (TypeError, s)
      | Some Resolved \<Rightarrow> Inr s
      | Some Pending \<Rightarrow> Inr (s\<lparr>load_resolver := Some Resolved, microtasks := Suc (microtasks s)\<rparr>))"

subsection \<open>The methods of the plugin\<close>

text \<open>
  The markup of \<^verbatim>\<open>showDisplay\<close> (lines 139-143), with the stimulus inside it.
\<close>

definition display_html :: "params \<Rightarrow> string" where
  \<open>display_html trial =
     ''<div id="jspsych-html-audio-response-stimulus">'' @ stimulus trial @ ''</div>''
     @ (if show_done_button trial
        then ''<p><button class="jspsych-btn" id="finish-trial">'' @ done_button_label trial
               @ ''</button></p>''
        else [])\<close>

text \<open>
  Assigning to \<^verbatim>\<open>innerHTML\<close> replaces the elements of the display, and with them the
  listeners they carried.
\<close>

definition set_innerHTML :: "string \<Rightarrow> state \<Rightarrow> state" where
  "set_innerHTML html s =
     s\<lparr>innerHTML := html, finish_listener := False, record_again_listener := False,
       accept_listener := False, stimulus_hidden := False\<rparr>"

definition showDisplay :: "params \<Rightarrow> state \<Rightarrow> state" where
  "showDisplay trial s =
     set_innerHTML (display_html trial) (s\<lparr>observers := Suc (observers s)\<rparr>)"

definition hideStimulus :: "host \<Rightarrow> state \<Rightarrow> state" where
  "hideStimulus h s =
     (if has_element_id h (innerHTML s) ''jspsych-html-audio-response-stimulus''
      then s\<lparr>stimulus_hidden := True\<rparr> else s)"

text \<open>
  \<^verbatim>\<open>addButtonEvent\<close> (lines 157-172): the click listener goes to the element that
  \<^verbatim>\<open>querySelector("#finish-trial")\<close> finds in the display, if there is one; it need not
  be the done button.
\<close>

definition addButtonEvent :: "host \<Rightarrow> params \<Rightarrow> state \<Rightarrow> state" where
  "addButtonEvent h trial s =
     (if has_element_id h (innerHTML s) ''finish-trial''
      then s\<lparr>finish_listener := True\<rparr> else s)"

definition startRecording :: "state \<Rightarrow> outcome" where
  "startRecording s = recorder_start s"

definition stopRecording :: "state \<Rightarrow> state" where
  "stopRecording s = (recorder_stop s)\<lparr>load_resolver := Some Pending\<rparr>"

text \<open>
  The markup of \<^verbatim>\<open>showPlaybackControls\<close> (lines 267-271), white space between the
  elements left out; an object URL is written as \<^verbatim>\<open>blob:\<close> and its number.
\<close>

definition url_string :: "nat option \<Rightarrow> string" where
  "url_string u = (case u of None \<Rightarrow> ''undefined'' | Some i \<Rightarrow> ''blob:'' @ string_of_nat i)"

definition playback_html :: "params \<Rightarrow> nat option \<Rightarrow> string" where
  \<open>playback_html trial u =
     ''<p><audio id="playback" src="'' @ url_string u @ ''" controls></audio></p>''
     @ ''<button id="record-again" class="jspsych-btn">'' @ record_again_button_label trial
     @ ''</button>''
     @ ''<button id="continue" class="jspsych-btn">'' @ accept_button_label trial
     @ ''</button>''\<close>

text \<open>
  \<^verbatim>\<open>showPlaybackControls\<close> (lines 266-286): \<^verbatim>\<open>addEventListener\<close> on the result of a
  \<^verbatim>\<open>querySelector\<close> that found nothing throws.
\<close>

definition showPlaybackControls :: "host \<Rightarrow> params \<Rightarrow> state \<Rightarrow> outcome" where
  "showPlaybackControls h trial s =
     (let s1 = set_innerHTML (playback_html trial (audio_url s)) s
      in if \<not> has_element_id h (innerHTML s1) ''record-again'' then Inl (TypeError, s1)
         else (let s2 = s1\<lparr>record_again_listener := True\<rparr>
               in if \<not> has_element_id h (innerHTML s2) ''continue'' then Inl (TypeError, s2)
                  else Inr (s2\<lparr>accept_listener := True\<rparr>)))"

text \<open>\<^verbatim>\<open>jsPsych.finishTrial\<close>: the host takes the payload, and cleans up as it is configured.\<close>

definition finishTrial :: "host \<Rightarrow> trial_data \<Rightarrow> state \<Rightarrow> state" where
  "finishTrial h d s =
     (let s1 = s\<lparr>finished := finished s @ [d]\<rparr>;
          s2 = (if clears_display h then set_innerHTML [] s1 else s1)
      in if clears_timeouts h then s2\<lparr>timers := []\<rparr> else s2)"

definition endTrial :: "host \<Rightarrow> params \<Rightarrow> state \<Rightarrow> state" where
  "endTrial h trial s =
     (let s1 = s\<lparr>on_dataavailable := False, on_start := False, on_stop := False\<rparr>;
          d = \<lparr> td_rt = rt s1, td_stimulus = stimulus trial, td_response = response s1,
                td_estimated_stimulus_onset =
                  Math_round (minus_time (stimulus_start_time s1) (recorder_start_time s1)),
                td_audio_url = (if save_audio_url trial then audio_url s1 else None) \<rparr>;
          s2 = (if save_audio_url trial then s1 else revokeObjectURL (audio_url s1) s1);
          s3 = finishTrial h d s2
      in s3\<lparr>transcribe_calls := transcribe_calls s3 @ [(td_audio_url d, arrayBuffer s3, data s3)]\<rparr>)"

text \<open>The callback given to \<^verbatim>\<open>then\<close> at lines 163-169 and 233-239.\<close>

definition then_callback :: "host \<Rightarrow> params \<Rightarrow> state \<Rightarrow> outcome" where
  "then_callback h trial s =
     (if allow_playback trial then showPlaybackControls h trial s
      else Inr (endTrial h trial s))"

text \<open>The click listener of the done button (lines 160-170); the argument is \<^verbatim>\<open>performance.now()\<close>.\<close>

definition done_click :: "real \<Rightarrow> state \<Rightarrow> state" where
  "done_click end_time s =
     stopRecording (s\<lparr>rt := Math_round (minus_time (Some end_time) (stimulus_start_time s))\<rparr>)"

definition data_available_handler :: "blob \<Rightarrow> state \<Rightarrow> state" where
  "data_available_handler e_data s =
     (if size_blob e_data > 0
      then s\<lparr>recorded_data_chunks := recorded_data_chunks s @ [e_data]\<rparr> else s)"

text \<open>
  The \<^verbatim>\<open>stop\<close> listener (lines 181-210); the argument is \<^verbatim>\<open>Date.now()\<close>. Reading
  \<^verbatim>\<open>recorded_data_chunks[0].type\<close> of an empty array throws. The two readers are started
  whether or not \<^verbatim>\<open>local_download\<close> is set.
\<close>

definition stop_event_handler :: "params \<Rightarrow> nat \<Rightarrow> state \<Rightarrow> outcome" where
  "stop_event_handler trial now s =
     (case recorded_data_chunks s of
        [] \<Rightarrow> Inl (TypeError, s)
      | c # cs \<Rightarrow>
          (let blob_data = \<lparr> bytes = concat (map bytes (c # cs)), content_type = content_type c \<rparr>;
               (u, s1) = createObjectURL blob_data s;
               s2 = s1\<lparr>audio_url := Some u\<rparr>;
               start_readers = (\<lambda>t. t\<lparr>readers := readers t @ [blob_data], data := Some blob_data,
                                       buffer_readers := buffer_readers t @ [blob_data]\<rparr>)
           in if local_download trial then
                (let filename = download_file_name trial @ ''-'' @ string_of_nat now @ ''.wav'';
                     s3 = s2\<lparr>downloads := downloads s2 @ [(filename, u)], response := Some filename\<rparr>
                 in case call_load_resolver s3 of
                      Inl x \<Rightarrow> Inl x
                    | Inr s4 \<Rightarrow> Inr (start_readers s4))
              else Inr (start_readers s2)))"

text \<open>The \<^verbatim>\<open>load\<close> listener of the data-URL reader (lines 196-200) for the blob it read.\<close>

definition reader_load :: "blob \<Rightarrow> state \<Rightarrow> outcome" where
  "reader_load b s =
     call_load_resolver (s\<lparr>response := at_index (split_on CHR '','' (readAsDataURL b)) 1\<rparr>)"

text \<open>\<^verbatim>\<open>fileReader.onloadend\<close> (lines 206-208).\<close>

definition buffer_loadend :: "blob \<Rightarrow> state \<Rightarrow> state" where
  "buffer_loadend b s = s\<lparr>arrayBuffer := Some (bytes b)\<rparr>"

text \<open>The callback of the recording-deadline timer (lines 229-241).\<close>

definition deadline_fired :: "state \<Rightarrow> state" where
  "deadline_fired s = (if rec_state s \<noteq> Inactive then stopRecording s else s)"

text \<open>The \<^verbatim>\<open>start\<close> listener (lines 212-243); the argument is \<^verbatim>\<open>e.timeStamp\<close>.\<close>

definition start_event_handler :: "host \<Rightarrow> params \<Rightarrow> real \<Rightarrow> state \<Rightarrow> state" where
  "start_event_handler h trial timeStamp s =
     (let s1 = s\<lparr>recorded_data_chunks := [], recorder_start_time := Some timeStamp\<rparr>;
          s2 = showDisplay trial s1;
          s3 = addButtonEvent h trial s2;
          s4 = (if stimulus_duration trial \<noteq> None
                then s3\<lparr>timers := timers s3 @ [HideStimulus]\<rparr> else s3)
      in if recording_duration trial \<noteq> None
         then s4\<lparr>timers := timers s4 @ [RecordingDeadline]\<rparr> else s4)"

text \<open>The click listeners of the playback controls (lines 275-282).\<close>

definition record_again_click :: "state \<Rightarrow> outcome" where
  "record_again_click s = startRecording (revokeObjectURL (audio_url s) s)"

definition accept_click :: "host \<Rightarrow> params \<Rightarrow> state \<Rightarrow> state" where
  "accept_click h trial s = endTrial h trial s"

definition setupRecordingEvents :: "state \<Rightarrow> state" where
  "setupRecordingEvents s = s\<lparr>on_dataavailable := True, on_stop := True, on_start := True\<rparr>"

text \<open>The entry point \<^verbatim>\<open>trial\<close> (lines 122-128).\<close>

definition trial_entry :: "state \<Rightarrow> outcome" where
  "trial_entry s = startRecording (setupRecordingEvents s)"

subsection \<open>Events and runs\<close>

text \<open>
  What the browser can deliver: the recorder's events (\<^verbatim>\<open>start\<close> with its time stamp,
  \<^verbatim>\<open>dataavailable\<close> with its blob, \<^verbatim>\<open>stop\<close>, with the \<^verbatim>\<open>Date.now()\<close> its listener will
  read), the resize observer's callback and a click on the element that carries the
  listener of \<^verbatim>\<open>addButtonEvent\<close> (each with the \<^verbatim>\<open>performance.now()\<close> its listener
  will read), a click on the element that carries the record-again listener or the
  accept listener, a timer that fires, and the completion of the pending reader at an
  index. A click is delivered to one listener: a click on an element that lies inside
  another element with a listener would run both, and is not among the events.
\<close>

datatype event =
    DevStart real
  | DevData blob
  | DevStop nat
  | Resized real
  | ClickDone real
  | ClickRecordAgain
  | ClickAccept
  | TimerFired timer
  | ReaderLoad nat
  | BufferLoad nat

definition drop_index :: "nat \<Rightarrow> 'a list \<Rightarrow> 'a list" where
  "drop_index k xs = take k xs @ drop (Suc k) xs"

text \<open>
  One task of the event loop. An event that cannot happen in the state (no such event
  queued, no such button, no such timer or reader) leaves the state as it is; an event
  with no listener registered is consumed without effect.
\<close>

fun dispatch :: "host \<Rightarrow> params \<Rightarrow> event \<Rightarrow> state \<Rightarrow> outcome" where
  "dispatch h trial (DevStart ts) s =
     (if start_queued s then
        (let s1 = s\<lparr>start_queued := False\<rparr>
         in if on_start s1 then Inr (start_event_handler h trial ts s1) else Inr s1)
      else Inr s)"
| "dispatch h trial (DevData b) s =
     (if (rec_state s = Recording \<or> stop_queued s) \<and> on_dataavailable s
      then Inr (data_available_handler b s) else Inr s)"
| "dispatch h trial (DevStop now) s =
     (if stop_queued s then
        (let s1 = s\<lparr>stop_queued := False\<rparr>
         in if on_stop s1 then stop_event_handler trial now s1 else Inr s1)
      else Inr s)"
| "dispatch h trial (Resized now) s =
     (if observers s > 0
      then Inr (s\<lparr>stimulus_start_time := Some now, observers := observers s - 1\<rparr>)
      else Inr s)"
| "dispatch h trial (ClickDone now) s =
     (if finish_listener s then Inr (done_click now s) else Inr s)"
| "dispatch h trial ClickRecordAgain s =
     (if record_again_listener s then record_again_click s else Inr s)"
| "dispatch h trial ClickAccept s =
     (if accept_listener s then Inr (accept_click h trial s) else Inr s)"
| "dispatch h trial (TimerFired t) s =
     (if t \<in> set (timers s) then
        (let s1 = s\<lparr>timers := remove1 t (timers s)\<rparr>
         in case t of HideStimulus \<Rightarrow> Inr (hideStimulus h s1)
            | RecordingDeadline \<Rightarrow> Inr (deadline_fired s1))
      else Inr s)"
| "dispatch h trial (ReaderLoad k) s =
     (if k < length (readers s)
      then reader_load (readers s ! k) (s\<lparr>readers := drop_index k (readers s)\<rparr>)
      else Inr s)"
| "dispatch h trial (BufferLoad k) s =
     (if k < length (buffer_readers s)
      then Inr (buffer_loadend (buffer_readers s ! k)
                  (s\<lparr>buffer_readers := drop_index k (buffer_readers s)\<rparr>))
      else Inr s)"

text \<open>An exception that leaves a callback is reported and the event loop goes on.\<close>

definition settle :: "outcome \<Rightarrow> state" where
  "settle r = (case r of Inl (e, s) \<Rightarrow> s\<lparr>uncaught := uncaught s @ [e]\<rparr> | Inr s \<Rightarrow> s)"

text \<open>
  After each task the queued \<^verbatim>\<open>then\<close> callbacks run, before any other event; an
  exception in one of them is reported like any other.
\<close>

definition run_microtasks :: "host \<Rightarrow> params \<Rightarrow> state \<Rightarrow> state" where
  "run_microtasks h trial s =
     ((\<lambda>t. settle (then_callback h trial t)) ^^ microtasks s) (s\<lparr>microtasks := 0\<rparr>)"

definition step :: "host \<Rightarrow> params \<Rightarrow> state \<Rightarrow> event \<Rightarrow> state" where
  "step h trial s e = run_microtasks h trial (settle (dispatch h trial e s))"

definition start_trial :: state where
  "start_trial = settle (trial_entry init)"

definition run :: "host \<Rightarrow> params \<Rightarrow> event list \<Rightarrow> state" where
  "run h trial es = foldl (step h trial) start_trial es"

subsection \<open>The transcription dispatcher\<close>

text \<open>
  \<^verbatim>\<open>transcribe\<close> (lines 320-396) is an \<^verbatim>\<open>async\<close> function with three awaits and no
  exception handler: a failure at an await rejects the promise it returns and skips the rest.
  The engine and the network are parameters: loading the pipeline gives a transcriber
  or fails, fetching the audio URL gives bytes or fails, the transcriber gives a
  transcript or fails.
\<close>

datatype failure = EngineUnavailable | FetchFailed | DecodeFailed

datatype audio_source = Url string | Samples "byte list"

record engine =
  pipeline :: "string \<Rightarrow> string \<Rightarrow> failure + (audio_source \<Rightarrow> string \<Rightarrow> failure + string)"
  fetch :: "nat option \<Rightarrow> failure + byte list"

text \<open>
  What a call of \<^verbatim>\<open>transcribe\<close> leaves behind: how its promise settled (\<open>None\<close> is
  fulfilled), the lines of \<^verbatim>\<open>console.log\<close>, the URLs it fetched, and the calls of the
  transcriber with the audio source and the \<^verbatim>\<open>return_timestamps\<close> option.
\<close>

record transcription =
  settled :: "failure option"
  console_log :: "string list"
  fetched :: "nat option list"
  engine_calls :: "(audio_source \<times> string) list"

definition transcribe :: "engine \<Rightarrow> nat option \<Rightarrow> byte list option \<Rightarrow> blob option \<Rightarrow> transcription" where
  "transcribe eng url buf blob_data =
     (case pipeline eng ''automatic-speech-recognition'' ''Xenova/whisper-tiny.en'' of
        Inl f \<Rightarrow> \<lparr> settled = Some f, console_log = [], fetched = [], engine_calls = [] \<rparr>
      | Inr transcriber \<Rightarrow>
          (let wav = ''http://localhost:8000/examples/audio-response-1747257891581.wav''
           in case fetch eng url of
                Inl f \<Rightarrow> \<lparr> settled = Some f, console_log = [], fetched = [url], engine_calls = [] \<rparr>
              | Inr dataArrayBuffer \<Rightarrow>
                  (case transcriber (Url wav) ''word'' of
                     Inl f \<Rightarrow> \<lparr> settled = Some f, console_log = [], fetched = [url],
                                engine_calls = [(Url wav, ''word'')] \<rparr>
                   | Inr output \<Rightarrow> \<lparr> settled = None, console_log = [output], fetched = [url],
                                     engine_calls = [(Url wav, ''word'')] \<rparr>)))"

text \<open>
  \<^verbatim>\<open>endTrial\<close> together with the call of \<^verbatim>\<open>transcribe\<close> on its last line: the state the
  trial is left in, and what the detached call does. The promise is dropped.
\<close>

definition endTrial_transcribing :: "engine \<Rightarrow> host \<Rightarrow> params \<Rightarrow> state \<Rightarrow> state \<times> transcription" where
  "endTrial_transcribing eng h trial s =
     (let s1 = endTrial h trial s;
          (url, buf, blob_data) = last (transcribe_calls s1)
      in (s1, transcribe eng url buf blob_data))"

subsection \<open>Concrete trials\<close>

text \<open>The defaults of \<^verbatim>\<open>info.parameters\<close> with a stimulus, and variants of them.\<close>

definition default_params :: params where
  "default_params = \<lparr> stimulus = ''<p>Say it</p>'', stimulus_duration = None,
     recording_duration = Some 2000, show_done_button = True, done_button_label = ''Continue'',
     record_again_button_label = ''Record again'', accept_button_label = ''Continue'',
     allow_playback = False, save_audio_url = True, local_download = False,
     download_file_name = ''audio-response'' \<rparr>"

definition playback_params :: params where
  "playback_params = default_params\<lparr>allow_playback := True\<rparr>"

definition download_playback_params :: params where
  "download_playback_params = default_params\<lparr>allow_playback := True, local_download := True\<rparr>"

definition unattended_params :: params where
  "unattended_params = default_params\<lparr>recording_duration := None, show_done_button := False\<rparr>"

text \<open>
  A host that empties the display and cancels the timeouts when the trial is finished,
  in a browser whose parser is replaced by a search of the markup for the \<^verbatim>\<open>id\<close>
  attribute in its three spellings (double quotes, single quotes, no quotes); on the
  markup of the trials below the two agree.
\<close>

definition finds_id :: "string \<Rightarrow> string \<Rightarrow> bool" where
  \<open>finds_id html i \<longleftrightarrow>
     contains (''id="'' @ i @ ''"'') html
     \<or> contains (''id='' @ [CHR 0x27] @ i @ [CHR 0x27]) html
     \<or> contains (''id='' @ i) html\<close>

definition cleaning_host :: host where
  "cleaning_host = \<lparr> clears_display = True, clears_timeouts = True, has_element_id = finds_id \<rparr>"

text \<open>A trial with no deadline and no done button whose stimulus brings a button of its own.\<close>

definition button_stimulus_params :: params where
  "button_stimulus_params =
     unattended_params\<lparr>stimulus := ''<button id=finish-trial>Stop</button>''\<rparr>"

definition chunk_a :: blob where
  "chunk_a = \<lparr> bytes = [1, 2, 3, 4], content_type = ''audio/webm;codecs=opus'' \<rparr>"

definition chunk_b :: blob where
  "chunk_b = \<lparr> bytes = [9], content_type = ''audio/webm;codecs=opus'' \<rparr>"

definition empty_chunk :: blob where
  "empty_chunk = \<lparr> bytes = [], content_type = ''audio/webm;codecs=opus'' \<rparr>"

text \<open>An engine that loads, over a network that serves one recording under URL 0.\<close>

definition working_engine :: engine where
  "working_engine = \<lparr> pipeline = (\<lambda>task model. Inr (\<lambda>src granularity. Inr ''ok'')),
     fetch = (\<lambda>u. if u = Some 0 then Inr (bytes chunk_a) else Inl FetchFailed) \<rparr>"

definition absent_engine :: engine where
  "absent_engine = \<lparr> pipeline = (\<lambda>task model. Inl EngineUnavailable),
     fetch = (\<lambda>u. if u = Some 0 then Inr (bytes chunk_a) else Inl FetchFailed) \<rparr>"

definition deaf_engine :: engine where
  "deaf_engine = \<lparr> pipeline = (\<lambda>task model. Inr (\<lambda>src granularity. Inl DecodeFailed)),
     fetch = (\<lambda>u. if u = Some 0 then Inr (bytes chunk_a) else Inl FetchFailed) \<rparr>"

text \<open>A state in which the stimulus became visible 50 ms after the recorder started.\<close>

definition recorded_state :: state where
  "recorded_state = init\<lparr>recorder_start_time := Some 1000, stimulus_start_time := Some 1050,
     recorded_data_chunks := [chunk_a, chunk_b], load_resolver := Some Pending\<rparr>"

subsection \<open>Invariants of a run\<close>

text \<open>
  What holds throughout a trial that has no recording deadline and no element with the
  id of the done button: nothing is finished, no deadline timer is pending, no promise
  was ever made, no stop is queued, no reader is pending, and no element of the display
  carries a click listener.
\<close>

definition unattended :: "state \<Rightarrow> bool" where
  "unattended s \<longleftrightarrow>
     finished s = [] \<and> RecordingDeadline \<notin> set (timers s) \<and> load_resolver s = None
     \<and> \<not> stop_queued s \<and> readers s = [] \<and> microtasks s = 0
     \<and> \<not> finish_listener s \<and> \<not> record_again_listener s \<and> \<not> accept_listener s"

text \<open>
  What holds throughout a trial without playback, on a host that empties the display:
  no microtask is left between events, the playback controls carry no listener, a
  promise exists only once the recorder is inactive, and once a payload has been given
  to the host it is the only one, the last promise is resolved, and the listener of the
  done button and the start listener are gone.
\<close>

definition single_exit :: "state \<Rightarrow> bool" where
  "single_exit s \<longleftrightarrow>
     microtasks s = 0 \<and> \<not> record_again_listener s \<and> \<not> accept_listener s
     \<and> (load_resolver s \<noteq> None \<longrightarrow> rec_state s = Inactive)
     \<and> (finished s = []
        \<or> (length (finished s) = 1 \<and> load_resolver s = Some Resolved
           \<and> \<not> finish_listener s \<and> \<not> on_start s))"

section \<open>Properties\<close>

lemmas model_defs = run_def step_def start_trial_def settle_def trial_entry_def
  setupRecordingEvents_def startRecording_def recorder_start_def recorder_stop_def init_def
  run_microtasks_def then_callback_def start_event_handler_def showDisplay_def
  set_innerHTML_def display_html_def playback_html_def url_string_def
  addButtonEvent_def data_available_handler_def size_blob_def done_click_def
  stopRecording_def Math_round_def minus_time_def stop_event_handler_def
  createObjectURL_def revokeObjectURL_def call_load_resolver_def reader_load_def
  buffer_loadend_def deadline_fired_def record_again_click_def accept_click_def
  endTrial_def finishTrial_def showPlaybackControls_def hideStimulus_def drop_index_def
  at_index_def Let_def

lemmas double_defs = round_double_def nearest_double_def round_half_even_def pow2_def
  scale2.simps is_double_def

lemmas example_defs = default_params_def playback_params_def download_playback_params_def
  unattended_params_def button_stimulus_params_def cleaning_host_def finds_id_def
  chunk_a_def chunk_b_def empty_chunk_def readAsDataURL_def media_type_def sextets_def
  b64_char_def b64_alphabet_def string_of_nat.simps double_defs

subsection \<open>The response of a recording attempt\<close>

text \<open>
  C2 (the code departs from the claim). With \<^verbatim>\<open>local_download\<close> and \<^verbatim>\<open>allow_playback\<close>
  both set, the stop listener assigns the file name and resolves, and then starts the
  data-URL reader all the same; when that reader loads before the participant accepts,
  its listener overwrites the response, and the payload given to the host carries the
  base64 text, not the name of the file that was downloaded.
\<close>

theorem local_download_response_overwritten:
  "downloads (run cleaning_host download_playback_params
      [DevStart 0, Resized 50, DevData chunk_a, ClickDone 500, DevStop 1747257891581,
       ReaderLoad 0, ClickAccept])
     = [(''audio-response-1747257891581.wav'', 0)]
   \<and> map td_response (finished (run cleaning_host download_playback_params
      [DevStart 0, Resized 50, DevData chunk_a, ClickDone 500, DevStop 1747257891581,
       ReaderLoad 0, ClickAccept]))
     = [Some ''AQIDBA=='']"
  by (simp add: model_defs example_defs)

subsection \<open>A deadline timer of an earlier attempt\<close>

lemma deadline_after_stop_does_nothing:
  "rec_state s = Inactive \<Longrightarrow> deadline_fired s = s"
  by (simp add: deadline_fired_def)

text \<open>
  C3 (the code departs from the claim). The guard of the deadline callback reads the
  recorder's state only. After a click on the done button and a click on "record
  again", the recorder records the second attempt while the timer of the first attempt
  is still pending; when that timer fires, its callback sees a recorder that is not
  inactive and stops the second attempt. The timer the second attempt armed is still
  pending afterwards. (While the recorder is inactive the callback does nothing.)
\<close>

theorem stale_deadline_stops_next_attempt:
  "rec_state (run cleaning_host playback_params
      [DevStart 0, Resized 50, DevData chunk_a, ClickDone 500, DevStop 7, ReaderLoad 0,
       ClickRecordAgain, DevStart 1000, Resized 1050]) = Recording
   \<and> timers (run cleaning_host playback_params
      [DevStart 0, Resized 50, DevData chunk_a, ClickDone 500, DevStop 7, ReaderLoad 0,
       ClickRecordAgain, DevStart 1000, Resized 1050]) = [RecordingDeadline, RecordingDeadline]
   \<and> rec_state (run cleaning_host playback_params
      [DevStart 0, Resized 50, DevData chunk_a, ClickDone 500, DevStop 7, ReaderLoad 0,
       ClickRecordAgain, DevStart 1000, Resized 1050, TimerFired RecordingDeadline]) = Inactive
   \<and> stop_queued (run cleaning_host playback_params
      [DevStart 0, Resized 50, DevData chunk_a, ClickDone 500, DevStop 7, ReaderLoad 0,
       ClickRecordAgain, DevStart 1000, Resized 1050, TimerFired RecordingDeadline])
   \<and> timers (run cleaning_host playback_params
      [DevStart 0, Resized 50, DevData chunk_a, ClickDone 500, DevStop 7, ReaderLoad 0,
       ClickRecordAgain, DevStart 1000, Resized 1050, TimerFired RecordingDeadline])
       = [RecordingDeadline]"
  by (simp add: model_defs example_defs)

subsection \<open>The outcome after a re-record\<close>

lemma start_resets_fragments:
  "recorded_data_chunks (start_event_handler h trial ts s) = []
   \<and> recorder_start_time (start_event_handler h trial ts s) = Some ts
   \<and> rt (start_event_handler h trial ts s) = rt s"
  by (simp add: start_event_handler_def showDisplay_def set_innerHTML_def addButtonEvent_def
      Let_def)

lemma record_again_revokes_url:
  "audio_url s = Some u \<Longrightarrow> map_of (object_urls (settle (record_again_click s))) u = None"
  by (auto simp: record_again_click_def startRecording_def recorder_start_def
        revokeObjectURL_def settle_def map_of_eq_None_iff)

text \<open>
  C4 (the code departs from the claim). The start listener resets the fragments and the
  recording-start time, and "record again" revokes the object URL, but nothing resets
  \<^verbatim>\<open>rt\<close>. When the first attempt ends with a click on the done button (450 ms after
  the stimulus) and the second attempt ends at its deadline with no click, the payload
  carries the fragments, the URL and the onset of the second attempt and the reaction
  time of the first.
\<close>

theorem rerecord_keeps_stale_rt:
  "finished (run cleaning_host playback_params
      [DevStart 0, Resized 50, DevData chunk_a, ClickDone 500, DevStop 7, ReaderLoad 0,
       TimerFired RecordingDeadline, ClickRecordAgain, DevStart 5000, Resized 5060,
       DevData chunk_b, TimerFired RecordingDeadline, DevStop 8, ReaderLoad 0, ClickAccept])
     = [\<lparr> td_rt = Num 450, td_stimulus = ''<p>Say it</p>'', td_response = Some ''CQ=='',
          td_estimated_stimulus_onset = Num 60, td_audio_url = Some 1 \<rparr>]"
  by (simp add: model_defs example_defs)

subsection \<open>What the transcriber is given\<close>

text \<open>
  C6 (the code departs from the claim). \<^verbatim>\<open>transcribe\<close> fetches the trial's audio URL
  and requests word-level timestamps, but the audio source it passes to the transcriber
  is the literal URL of line 337, not the bytes it fetched: for the recording served
  under URL 0 the engine is called with that literal.
\<close>

theorem transcriber_given_literal_url:
  "fetched (transcribe working_engine (Some 0) (Some (bytes chunk_a)) (Some chunk_a)) = [Some 0]
   \<and> fetch working_engine (Some 0) = Inr (bytes chunk_a)
   \<and> engine_calls (transcribe working_engine (Some 0) (Some (bytes chunk_a)) (Some chunk_a))
       = [(Url ''http://localhost:8000/examples/audio-response-1747257891581.wav'', ''word'')]
   \<and> engine_calls (transcribe working_engine (Some 0) (Some (bytes chunk_a)) (Some chunk_a))
       \<noteq> [(Samples (bytes chunk_a), ''word'')]"
  by (simp add: transcribe_def working_engine_def chunk_a_def)

subsection \<open>Failures of the transcription dispatcher\<close>

text \<open>
  C5, as the claim states it, fails: when the engine cannot be loaded, the promise of
  \<^verbatim>\<open>transcribe\<close> is rejected and nothing is logged; no handler inside the dispatcher
  catches the failure.
\<close>

theorem transcribe_failure_not_caught:
  "settled (transcribe absent_engine (Some 0) (Some (bytes chunk_a)) (Some chunk_a))
     = Some EngineUnavailable
   \<and> console_log (transcribe absent_engine (Some 0) (Some (bytes chunk_a)) (Some chunk_a)) = []"
  by (simp add: transcribe_def absent_engine_def)

text \<open>
  C5, amended. A failure of the engine load, of the fetch or of the transcriber call
  rejects the promise that \<^verbatim>\<open>transcribe\<close> returns, with that failure and with nothing
  logged. \<^verbatim>\<open>endTrial\<close> has given the payload to the host before the call and drops the
  promise: whatever the engine does, the trial is left in the state of \<^verbatim>\<open>endTrial\<close>,
  with the same payloads and no new uncaught exception.
\<close>

theorem transcribe_failure_rejects_detached:
  "fst (endTrial_transcribing eng h trial s) = endTrial h trial s
   \<and> length (finished (fst (endTrial_transcribing eng h trial s))) = Suc (length (finished s))
   \<and> uncaught (fst (endTrial_transcribing eng h trial s)) = uncaught s
   \<and> (pipeline eng ''automatic-speech-recognition'' ''Xenova/whisper-tiny.en'' = Inl f \<longrightarrow>
        settled (transcribe eng url buf d) = Some f \<and> console_log (transcribe eng url buf d) = [])
   \<and> (pipeline eng ''automatic-speech-recognition'' ''Xenova/whisper-tiny.en'' = Inr tr \<longrightarrow>
        fetch eng url = Inl f \<longrightarrow>
        settled (transcribe eng url buf d) = Some f \<and> console_log (transcribe eng url buf d) = [])
   \<and> (pipeline eng ''automatic-speech-recognition'' ''Xenova/whisper-tiny.en'' = Inr tr \<longrightarrow>
        fetch eng url = Inr fetched_bytes \<longrightarrow>
        tr (Url ''http://localhost:8000/examples/audio-response-1747257891581.wav'') ''word'' = Inl f \<longrightarrow>
        settled (transcribe eng url buf d) = Some f \<and> console_log (transcribe eng url buf d) = [])"
  by (simp add: endTrial_transcribing_def transcribe_def endTrial_def finishTrial_def
      set_innerHTML_def revokeObjectURL_def Let_def split: prod.split option.split)

theorem transcribe_failure_rejects_detached_witness:
  "pipeline absent_engine ''automatic-speech-recognition'' ''Xenova/whisper-tiny.en'' = Inl EngineUnavailable
   \<and> settled (transcribe absent_engine (Some 0) None None) = Some EngineUnavailable
   \<and> console_log (transcribe absent_engine (Some 0) None None) = []
   \<and> fetch working_engine (Some 5) = Inl FetchFailed
   \<and> settled (transcribe working_engine (Some 5) None None) = Some FetchFailed
   \<and> console_log (transcribe working_engine (Some 5) None None) = []
   \<and> fetch deaf_engine (Some 0) = Inr (bytes chunk_a)
   \<and> settled (transcribe deaf_engine (Some 0) None None) = Some DecodeFailed
   \<and> console_log (transcribe deaf_engine (Some 0) None None) = []
   \<and> length (finished (fst (endTrial_transcribing absent_engine cleaning_host default_params
         recorded_state))) = 1"
  using transcribe_failure_rejects_detached
          [of absent_engine cleaning_host default_params recorded_state EngineUnavailable
              "Some 0" None None]
        transcribe_failure_rejects_detached
          [of working_engine cleaning_host default_params recorded_state FetchFailed
              "Some 5" None None "\<lambda>src granularity. Inr ''ok''"]
        transcribe_failure_rejects_detached
          [of deaf_engine cleaning_host default_params recorded_state DecodeFailed
              "Some 0" None None "\<lambda>src granularity. Inl DecodeFailed" "bytes chunk_a"]
  by (simp add: absent_engine_def working_engine_def deaf_engine_def recorded_state_def init_def
      transcribe_def endTrial_transcribing_def endTrial_def finishTrial_def set_innerHTML_def
      Let_def cleaning_host_def default_params_def)

subsection \<open>The estimated stimulus onset\<close>

lemma pow2_positive: "0 < pow2 k"
  by (simp add: pow2_def)

lemma round_half_even_nonneg: "0 \<le> z \<Longrightarrow> 0 \<le> round_half_even z"
  by (auto simp: round_half_even_def Let_def)

lemma nearest_double_nonneg: "0 \<le> x \<Longrightarrow> 0 \<le> nearest_double x"
  using pow2_positive round_half_even_nonneg
  by (simp add: nearest_double_def Let_def less_imp_le)

lemma round_double_nonpos: "x \<le> 0 \<Longrightarrow> round_double x \<le> 0"
  using nearest_double_nonneg [of "- x"] by (simp add: round_double_def)

lemma round_double_fifty: "round_double 50 = 50"
  by (simp add: double_defs Let_def)

text \<open>
  C7, as the claim states it, fails in its last part. In a trial with playback the
  second attempt can be finished before its resize observer has fired; the payload then
  compares the stimulus time of the first attempt (50) with the recording start of the
  second (50.3). The recording started after that stimulus time, and the rounded
  difference is 0, which is not negative.
\<close>

theorem onset_zero_though_recording_started_later:
  "stimulus_start_time (run cleaning_host playback_params
      [DevStart 0, Resized 50, DevData chunk_a, ClickDone (501 / 10), DevStop 7, ReaderLoad 0,
       ClickRecordAgain, DevStart (503 / 10), DevData chunk_b, ClickDone 60, DevStop 8,
       ReaderLoad 0, ClickAccept]) = Some 50
   \<and> recorder_start_time (run cleaning_host playback_params
      [DevStart 0, Resized 50, DevData chunk_a, ClickDone (501 / 10), DevStop 7, ReaderLoad 0,
       ClickRecordAgain, DevStart (503 / 10), DevData chunk_b, ClickDone 60, DevStop 8,
       ReaderLoad 0, ClickAccept]) = Some (503 / 10)
   \<and> map td_estimated_stimulus_onset (finished (run cleaning_host playback_params
      [DevStart 0, Resized 50, DevData chunk_a, ClickDone (501 / 10), DevStop 7, ReaderLoad 0,
       ClickRecordAgain, DevStart (503 / 10), DevData chunk_b, ClickDone 60, DevStop 8,
       ReaderLoad 0, ClickAccept])) = [Num 0]"
  by (simp add: model_defs example_defs)

text \<open>
  C7, amended. When both time stamps are set (they are doubles), the payload
  \<^verbatim>\<open>endTrial\<close> gives to the host has \<^verbatim>\<open>estimated_stimulus_onset\<close> equal to
  \<^verbatim>\<open>Math.round\<close> of the double-precision difference of the stimulus-visible time and
  the recording-start time. It is 50 when the stimulus became visible 50 ms after the
  recording started. When the recording started after the stimulus became visible it is
  never positive, and it is negative exactly when the computed difference is below
  -0.5.
\<close>

theorem estimated_stimulus_onset_rounded:
  assumes "stimulus_start_time s = Some v" and "recorder_start_time s = Some r"
    and "is_double v" and "is_double r"
  shows "td_estimated_stimulus_onset (last (finished (endTrial h trial s)))
        = Num (round (round_double (v - r)))
    \<and> (v - r = 50 \<longrightarrow>
         td_estimated_stimulus_onset (last (finished (endTrial h trial s))) = Num 50)
    \<and> (v < r \<longrightarrow> round (round_double (v - r)) \<le> 0)
    \<and> ((round (round_double (v - r)) < 0) = (round_double (v - r) < - 1 / 2))"
proof -
  have onset: "td_estimated_stimulus_onset (last (finished (endTrial h trial s)))
      = Num (round (round_double (v - r)))"
    using assms
    by (simp add: endTrial_def finishTrial_def set_innerHTML_def revokeObjectURL_def
        Math_round_def minus_time_def is_double_def round_def Let_def split: option.split)
  have fifty: "v - r = 50 \<Longrightarrow> round (round_double (v - r)) = 50"
    by (simp add: round_double_fifty round_def)
  have nonpos: "round (round_double (v - r)) \<le> 0" if "v < r"
  proof -
    from that have "round_double (v - r) \<le> 0"
      by (intro round_double_nonpos) simp
    then show ?thesis
      unfolding round_def by (simp add: floor_le_iff)
  qed
  have neg: "(round (round_double (v - r)) < 0) = (round_double (v - r) < - 1 / 2)"
    unfolding round_def by (auto simp: floor_less_iff)
  show ?thesis
    using onset fifty nonpos neg by simp
qed

theorem estimated_stimulus_onset_rounded_witness:
  "stimulus_start_time recorded_state = Some 1050
   \<and> recorder_start_time recorded_state = Some 1000
   \<and> is_double 1050 \<and> is_double 1000
   \<and> td_estimated_stimulus_onset
       (last (finished (endTrial cleaning_host default_params recorded_state))) = Num 50"
  using estimated_stimulus_onset_rounded
          [of recorded_state 1050 1000 cleaning_host default_params]
  by (simp add: recorded_state_def init_def double_defs Let_def)

subsection \<open>The first fragment's content type\<close>

text \<open>
  C10. The stop listener reads the content type of the first fragment. With no fragment
  it throws a \<^verbatim>\<open>TypeError\<close> before it writes anything. With at least one fragment
  the read has a value: the listener goes on, and the blob it registers under the new
  audio URL has the content type of the first fragment. The data listener appends a
  fragment only when its size is positive, so a recorder that delivered only empty
  fragments leaves the sequence empty.
\<close>

theorem first_fragment_type_defined_iff_nonempty:
  "(recorded_data_chunks s = [] \<longrightarrow> stop_event_handler trial now s = Inl (TypeError, s))
   \<and> (recorded_data_chunks s \<noteq> [] \<longrightarrow>
        (\<exists>u b. audio_url (settle (stop_event_handler trial now s)) = Some u
           \<and> map_of (object_urls (settle (stop_event_handler trial now s))) u = Some b
           \<and> content_type b = content_type (hd (recorded_data_chunks s))))
   \<and> (size_blob b = 0 \<longrightarrow>
        recorded_data_chunks (data_available_handler b s) = recorded_data_chunks s)
   \<and> (size_blob b > 0 \<longrightarrow>
        recorded_data_chunks (data_available_handler b s) = recorded_data_chunks s @ [b])"
  by (cases "recorded_data_chunks s"; cases "load_resolver s")
     (auto simp: stop_event_handler_def data_available_handler_def createObjectURL_def
        call_load_resolver_def settle_def Let_def split: promise.split)

theorem first_fragment_type_defined_iff_nonempty_witness:
  "recorded_data_chunks init = []
   \<and> stop_event_handler default_params 7 init = Inl (TypeError, init)
   \<and> size_blob empty_chunk = 0
   \<and> recorded_data_chunks (data_available_handler empty_chunk init) = []
   \<and> recorded_data_chunks recorded_state \<noteq> []
   \<and> audio_url (settle (stop_event_handler default_params 7 recorded_state)) = Some 0
   \<and> map_option content_type
        (map_of (object_urls (settle (stop_event_handler default_params 7 recorded_state))) 0)
       = Some ''audio/webm;codecs=opus''
   \<and> size_blob chunk_a > 0
   \<and> recorded_data_chunks (data_available_handler chunk_a init) = [chunk_a]"
  using first_fragment_type_defined_iff_nonempty [of init default_params 7 empty_chunk]
        first_fragment_type_defined_iff_nonempty [of recorded_state default_params 7 chunk_a]
        first_fragment_type_defined_iff_nonempty [of init default_params 7 chunk_a]
  by (simp add: model_defs init_def recorded_state_def default_params_def empty_chunk_def
      chunk_a_def chunk_b_def)

subsection \<open>A trial with no deadline and no done button\<close>

lemma run_microtasks_none: "microtasks s = 0 \<Longrightarrow> run_microtasks h trial s = s"
  by (simp add: run_microtasks_def)

lemma unattended_start: "unattended start_trial"
  by (simp add: unattended_def start_trial_def settle_def trial_entry_def startRecording_def
      recorder_start_def setupRecordingEvents_def init_def)

lemma unattended_step:
  assumes "recording_duration trial = None"
    and "\<not> has_element_id h (display_html trial) ''finish-trial''"
    and "unattended s"
  shows "unattended (step h trial s e)"
proof (cases e)
  case (TimerFired t)
  then show ?thesis
    using assms
    by (cases t)
       (auto simp: unattended_def step_def settle_def run_microtasks_none hideStimulus_def
          deadline_fired_def Let_def notin_set_remove1)
next
  case (DevStart ts)
  then show ?thesis
    using assms
    by (auto simp: unattended_def step_def settle_def run_microtasks_none
          start_event_handler_def showDisplay_def set_innerHTML_def addButtonEvent_def Let_def)
qed (use assms in \<open>auto simp: unattended_def step_def settle_def run_microtasks_none
      data_available_handler_def buffer_loadend_def\<close>)

lemma unattended_foldl:
  assumes "recording_duration trial = None"
    and "\<not> has_element_id h (display_html trial) ''finish-trial''"
  shows "unattended s \<Longrightarrow> unattended (foldl (step h trial) s es)"
  by (induction es arbitrary: s) (simp_all add: unattended_step [OF assms])

text \<open>
  C9, as the claim states it, fails: \<^verbatim>\<open>addButtonEvent\<close> attaches its listener to
  whatever element has the id \<^verbatim>\<open>finish-trial\<close>, and the stimulus is part of the markup
  it searches. With \<^verbatim>\<open>recording_duration\<close> null and \<^verbatim>\<open>show_done_button\<close> false, a
  stimulus that brings such an element is clicked and the trial is finished.
\<close>

theorem stimulus_button_finishes_unattended_trial:
  "recording_duration button_stimulus_params = None
   \<and> \<not> show_done_button button_stimulus_params
   \<and> length (finished (run cleaning_host button_stimulus_params
        [DevStart 0, Resized 50, DevData chunk_a, ClickDone 500, DevStop 7, ReaderLoad 0])) = 1"
  by (simp add: model_defs example_defs)

text \<open>
  C9, amended. With \<^verbatim>\<open>recording_duration\<close> null and \<^verbatim>\<open>show_done_button\<close> false, and a
  stimulus whose markup gives the display no element with the id \<^verbatim>\<open>finish-trial\<close>,
  whatever events the browser delivers, no payload is given to the host, no
  recording-deadline timer is pending and no element carries the listener of the done
  button. (The events are the ones the plugin itself can cause; a stop applied from
  outside is not among them.)
\<close>

theorem unattended_trial_never_concludes:
  assumes "recording_duration trial = None" and "\<not> show_done_button trial"
    and "\<not> has_element_id h (display_html trial) ''finish-trial''"
  shows "finished (run h trial es) = []
    \<and> RecordingDeadline \<notin> set (timers (run h trial es))
    \<and> \<not> finish_listener (run h trial es)"
  using unattended_foldl [OF assms(1,3) unattended_start, of es]
  by (auto simp: run_def unattended_def)

theorem unattended_trial_never_concludes_witness:
  "recording_duration unattended_params = None \<and> \<not> show_done_button unattended_params
   \<and> \<not> has_element_id cleaning_host (display_html unattended_params) ''finish-trial''
   \<and> finished (run cleaning_host unattended_params
        [DevStart 0, Resized 50, DevData chunk_a, TimerFired RecordingDeadline, ClickDone 500,
         DevStop 7, ReaderLoad 0]) = []
   \<and> innerHTML (run cleaning_host unattended_params
        [DevStart 0, Resized 50, DevData chunk_a, TimerFired RecordingDeadline, ClickDone 500,
         DevStop 7, ReaderLoad 0]) = display_html unattended_params"
  using unattended_trial_never_concludes [of unattended_params cleaning_host
          "[DevStart 0, Resized 50, DevData chunk_a, TimerFired RecordingDeadline, ClickDone 500,
            DevStop 7, ReaderLoad 0]"]
  by (simp add: model_defs example_defs)

subsection \<open>How often a trial is finished\<close>

lemma run_microtasks_one:
  "microtasks s = Suc 0 \<Longrightarrow>
     run_microtasks h trial s = settle (then_callback h trial (s\<lparr>microtasks := 0\<rparr>))"
  by (simp add: run_microtasks_def)

lemma single_exit_start: "single_exit start_trial"
  by (simp add: single_exit_def start_trial_def settle_def trial_entry_def startRecording_def
      recorder_start_def setupRecordingEvents_def init_def)

lemma single_exit_resolve:
  assumes "clears_display h" and "\<not> allow_playback trial" and "single_exit s"
  shows "single_exit (run_microtasks h trial (settle (call_load_resolver s)))"
proof (cases "load_resolver s")
  case None
  then show ?thesis
    using assms by (simp add: call_load_resolver_def settle_def run_microtasks_none single_exit_def)
next
  case (Some p)
  then show ?thesis
    using assms
    by (cases p)
       (auto simp: call_load_resolver_def settle_def run_microtasks_none run_microtasks_one
          single_exit_def then_callback_def endTrial_def finishTrial_def set_innerHTML_def revokeObjectURL_def
          Let_def split: option.splits)
qed


lemma single_exit_step:
  assumes h: "clears_display h" and p: "\<not> allow_playback trial" and i: "single_exit s"
  shows "single_exit (step h trial s e)"
proof (cases e)
  case (DevStart ts)
  then show ?thesis
    using i
    by (auto simp: single_exit_def step_def settle_def run_microtasks_none
          start_event_handler_def showDisplay_def set_innerHTML_def addButtonEvent_def Let_def)
next
  case (DevData b)
  then show ?thesis
    using i
    by (auto simp: single_exit_def step_def settle_def run_microtasks_none
          data_available_handler_def)
next
  case (DevStop now)
  show ?thesis
  proof (cases "load_resolver s")
    case None
    then show ?thesis
      using i h p DevStop
      by (auto simp: single_exit_def step_def settle_def run_microtasks_none
            stop_event_handler_def createObjectURL_def call_load_resolver_def Let_def
            split: list.splits)
  next
    case (Some pr)
    then show ?thesis
      using i h p DevStop
      by (cases pr)
         (auto simp: single_exit_def step_def settle_def run_microtasks_none run_microtasks_one
            stop_event_handler_def createObjectURL_def call_load_resolver_def Let_def
            then_callback_def endTrial_def finishTrial_def set_innerHTML_def revokeObjectURL_def
            split: list.splits option.splits)
  qed
next
  case (Resized now)
  then show ?thesis
    using i by (auto simp: single_exit_def step_def settle_def run_microtasks_none)
next
  case (ClickDone now)
  then show ?thesis
    using i
    by (auto simp: single_exit_def step_def settle_def run_microtasks_none done_click_def
          stopRecording_def recorder_stop_def)
next
  case ClickRecordAgain
  then show ?thesis
    using i
    by (auto simp: single_exit_def step_def settle_def run_microtasks_none)
next
  case ClickAccept
  then show ?thesis
    using i
    by (auto simp: single_exit_def step_def settle_def run_microtasks_none)
next
  case (TimerFired t)
  then show ?thesis
    using i
    by (cases t)
       (auto simp: single_exit_def step_def settle_def run_microtasks_none hideStimulus_def
          deadline_fired_def stopRecording_def recorder_stop_def Let_def)
next
  case (ReaderLoad k)
  show ?thesis
  proof (cases "k < length (readers s)")
    case True
    have "single_exit (s\<lparr>readers := drop_index k (readers s),
        response := at_index (split_on CHR '','' (readAsDataURL (readers s ! k))) 1\<rparr>)"
      using i by (simp add: single_exit_def)
    then show ?thesis
      using True ReaderLoad single_exit_resolve [OF h p]
      by (simp add: step_def reader_load_def)
  next
    case False
    then show ?thesis
      using i ReaderLoad by (simp add: step_def settle_def run_microtasks_none single_exit_def)
  qed
next
  case (BufferLoad k)
  then show ?thesis
    using i
    by (auto simp: single_exit_def step_def settle_def run_microtasks_none buffer_loadend_def)
qed

lemma single_exit_foldl:
  assumes "clears_display h" and "\<not> allow_playback trial"
  shows "single_exit s \<Longrightarrow> single_exit (foldl (step h trial) s es)"
  by (induction es arbitrary: s) (simp_all add: single_exit_step [OF assms])

text \<open>
  Without playback, on a host that empties the display when the trial is finished,
  \<^verbatim>\<open>endTrial\<close> is executed at most once, whatever events are delivered.
\<close>

lemma without_playback_at_most_once:
  assumes "clears_display h" and "\<not> allow_playback trial"
  shows "length (finished (run h trial es)) \<le> 1"
  using single_exit_foldl [OF assms single_exit_start, where es = es]
  by (auto simp: run_def single_exit_def)

text \<open>
  C1 (the code departs from the claim). With playback and \<^verbatim>\<open>local_download\<close> the stop
  listener resolves at once and leaves its reader pending. After a click on "record
  again", the deadline timer of the first attempt stops the new recording and leaves a
  pending promise; a click on accept finishes the trial; the load of the pending reader
  then resolves that promise, its callback shows the playback controls again, and a
  second click on accept finishes the trial a second time.
\<close>

theorem trial_finished_twice:
  "length (finished (run cleaning_host download_playback_params
      [DevStart 0, Resized 50, DevData chunk_a, ClickDone 500, DevStop 7, ClickRecordAgain,
       TimerFired RecordingDeadline, ClickAccept])) = 1
   \<and> length (finished (run cleaning_host download_playback_params
      [DevStart 0, Resized 50, DevData chunk_a, ClickDone 500, DevStop 7, ClickRecordAgain,
       TimerFired RecordingDeadline, ClickAccept, ReaderLoad 0, ClickAccept])) = 2"
  by (simp add: model_defs example_defs)

subsection \<open>The base64 response\<close>





















end
